theory Spec2Isabelle
  imports Main "HOL-Library.AList"
begin

section \<open>Python values handled by pynotion\<close>

text \<open>
  The module \<^verbatim>\<open>pynotion/__init__.py\<close> builds JSON request fragments out of
  caller-supplied Python values. The values the builders inspect are modelled by one
  datatype: \<^verbatim>\<open>None\<close>, booleans, unbounded integers, floats, strings,
  \<^verbatim>\<open>datetime\<close> objects, members of the \<^verbatim>\<open>SortDirection\<close> enumeration,
  lists and string-keyed dictionaries. A dictionary is an association list in insertion
  order, as Python keeps it.
\<close>

text \<open>
  \<^verbatim>\<open>datetime.date\<close> and its subclass \<^verbatim>\<open>datetime.datetime\<close>. The time zone
  is left out: \<^verbatim>\<open>datetime.date()\<close> does not consult it.
\<close>

record date =
  year :: nat
  month :: nat
  day :: nat

record datetime = date +
  hour :: nat
  minute :: nat
  second :: nat
  microsecond :: nat

text \<open>
  \<^verbatim>\<open>class SortDirection(Enum)\<close> with the members \<^verbatim>\<open>ascending = ("ascending",)\<close>
  and \<^verbatim>\<open>descending = "descending"\<close>. The member values differ, so neither member is
  an alias of the other.
\<close>

datatype SortDirection = ascending | descending

text \<open>
  A Python float: a finite value \<open>(-1)^s * m * 2^e\<close>, an infinity or a NaN. The builders
  only test a float against zero.
\<close>

datatype pyfloat = Finite bool nat int | Infinity bool | NaN

datatype pyval =
    PNone
  | PBool bool
  | PInt int
  | PFloat pyfloat
  | PStr string
  | PDateTime datetime
  | PEnum SortDirection
  | PList "pyval list"
  | PDict "(string \<times> pyval) list"

type_synonym pydict = "(string \<times> pyval) list"

text \<open>The exceptions the module raises or lets through, with the constructor argument.\<close>

datatype error =
    ValueError pyval
  | TypeError pyval
  | RecursionError
  | ConnectionError
  | Timeout
  | HTTPError int
  | JSONDecodeError

text \<open>Python truth value testing, as used by \<^verbatim>\<open>not x\<close> and \<^verbatim>\<open>x or y\<close>.\<close>

fun truthy :: "pyval \<Rightarrow> bool" where
  "truthy PNone = False"
| "truthy (PBool b) = b"
| "truthy (PInt i) = (i \<noteq> 0)"
| "truthy (PFloat (Finite s m e)) = (m \<noteq> 0)"
| "truthy (PFloat (Infinity s)) = True"
| "truthy (PFloat NaN) = True"
| "truthy (PStr s) = (s \<noteq> [])"
| "truthy (PDateTime d) = True"
| "truthy (PEnum d) = True"
| "truthy (PList xs) = (xs \<noteq> [])"
| "truthy (PDict kvs) = (kvs \<noteq> [])"

definition py_or :: "pyval \<Rightarrow> pyval \<Rightarrow> pyval" where
  "py_or a b = (if truthy a then a else b)"

subsection \<open>Dictionary and list operations\<close>

text \<open>
  \<^verbatim>\<open>d[k] = v\<close> replaces the value of an existing key in place and appends a new key
  at the end: this is \<^const>\<open>AList.update\<close>.
\<close>

definition setitem :: "string \<Rightarrow> pyval \<Rightarrow> pydict \<Rightarrow> pydict" where
  "setitem k v d = AList.update k v d"

text \<open>
  \<^verbatim>\<open>d[k].op(...)\<close> and \<^verbatim>\<open>d[k][k'] = v\<close>: the object stored under \<open>k\<close> is mutated
  by \<open>f\<close>. In every use below the key was stored by the preceding statement, so the
  \<^verbatim>\<open>KeyError\<close> of a missing key cannot occur; the model leaves the dictionary as it is
  there.
\<close>

definition at_key :: "string \<Rightarrow> (pyval \<Rightarrow> pyval) \<Rightarrow> pydict \<Rightarrow> pydict" where
  "at_key k f d = map (\<lambda>(k', v). if k' = k then (k', f v) else (k', v)) d"

text \<open>\<^verbatim>\<open>obj[k] = v\<close> on a stored object, which is a dictionary wherever it is used.\<close>

fun obj_setitem :: "string \<Rightarrow> pyval \<Rightarrow> pyval \<Rightarrow> pyval" where
  "obj_setitem k v (PDict d) = PDict (setitem k v d)"
| "obj_setitem k v x = x"

text \<open>Mutation of a dictionary stored inside another object.\<close>

fun obj_at_key :: "string \<Rightarrow> (pyval \<Rightarrow> pyval) \<Rightarrow> pyval \<Rightarrow> pyval" where
  "obj_at_key k f (PDict d) = PDict (at_key k f d)"
| "obj_at_key k f x = x"

text \<open>\<^verbatim>\<open>obj.append(x)\<close> on a stored object, which is a list wherever it is used.\<close>

fun obj_append :: "pyval \<Rightarrow> pyval \<Rightarrow> pyval" where
  "obj_append x (PList xs) = PList (xs @ [x])"
| "obj_append x y = y"

subsection \<open>String helpers\<close>

text \<open>\<^verbatim>\<open>s.split(c)\<close> for a one-character separator.\<close>

fun split :: "char \<Rightarrow> string \<Rightarrow> string list" where
  "split c [] = [[]]"
| "split c (x # xs) =
     (if x = c then [] # split c xs
      else (case split c xs of [] \<Rightarrow> [[x]] | w # ws \<Rightarrow> (x # w) # ws))"

text \<open>\<^verbatim>\<open>sep.join(parts)\<close>.\<close>

fun join :: "string \<Rightarrow> string list \<Rightarrow> string" where
  "join sep [] = []"
| "join sep [x] = x"
| "join sep (x # y # ys) = x @ sep @ join sep (y # ys)"

text \<open>The decimal digits of a natural number, as \<^verbatim>\<open>%d\<close> prints them.\<close>

definition dec_digit :: "nat \<Rightarrow> char" where
  "dec_digit d = char_of (48 + d)"

fun str_nat :: "nat \<Rightarrow> string" where
  "str_nat n = (if n < 10 then [dec_digit n]
                else str_nat (n div 10) @ [dec_digit (n mod 10)])"

declare str_nat.simps [simp del]

text \<open>\<^verbatim>\<open>"%0wd" % n\<close>: zero-padded on the left to at least \<open>w\<close> characters.\<close>

definition format_0d :: "nat \<Rightarrow> nat \<Rightarrow> string" where
  "format_0d w n = replicate (w - length (str_nat n)) (CHR ''0'') @ str_nat n"

subsection \<open>Conversion to a string\<close>

text \<open>
  \<^verbatim>\<open>build_single_sorter\<close> applies \<^verbatim>\<open>str\<close> to its \<^verbatim>\<open>direction\<close> argument for the
  debug log, before any check, whatever the kind of the argument. The text goes to the
  log only, so all that matters for the result is whether \<^verbatim>\<open>str\<close> raises. On a member
  of \<^verbatim>\<open>SortDirection\<close> it is the method of the class, which returns. On any other
  value it is the conversion built into the interpreter, whose outcome depends on the
  interpreter's settings: the builder takes it as the parameter \<open>builtin_str\<close>, the
  exception raised on a value, \<open>None\<close> when a string is returned.
\<close>

definition str_error :: "(pyval \<Rightarrow> error option) \<Rightarrow> pyval \<Rightarrow> error option" where
  "str_error builtin_str v = (case v of PEnum d \<Rightarrow> None | _ \<Rightarrow> builtin_str v)"

text \<open>
  The built-in conversion of CPython. An integer with more decimal digits than
  \<^verbatim>\<open>sys.get_int_max_str_digits()\<close> (4300 unless changed, 0 for no limit) raises
  \<^verbatim>\<open>ValueError\<close>; the sign is not counted.
\<close>

definition int_limit_message :: "nat \<Rightarrow> string" where
  "int_limit_message max_str_digits =
     ''Exceeds the limit ('' @ str_nat max_str_digits
       @ '' digits) for integer string conversion; use sys.set_int_max_str_digits() to increase the limit''"

definition int_str_error :: "nat \<Rightarrow> int \<Rightarrow> error option" where
  "int_str_error max_str_digits i =
     (if 0 < max_str_digits \<and> max_str_digits < length (str_nat (nat \<bar>i\<bar>))
      then Some (ValueError (PStr (int_limit_message max_str_digits))) else None)"

text \<open>The first exception met when the items are converted from left to right.\<close>

fun first_error :: "error option list \<Rightarrow> error option" where
  "first_error [] = None"
| "first_error (None # es) = first_error es"
| "first_error (Some e # es) = Some e"

text \<open>
  A list or a dictionary converts its items in order, one level deeper each time;
  \<open>depth\<close> is the number of levels of containers the interpreter can still enter at
  the call, and \<^verbatim>\<open>RecursionError\<close> is raised when none is left. The keys of a
  dictionary are strings, which convert without error, as do \<^verbatim>\<open>None\<close>, booleans,
  floats, strings and date-times.
\<close>

fun cpython_str_error :: "nat \<Rightarrow> nat \<Rightarrow> pyval \<Rightarrow> error option" where
  "cpython_str_error max_str_digits depth (PInt i) = int_str_error max_str_digits i"
| "cpython_str_error max_str_digits depth (PList xs) =
     (if depth = 0 then Some RecursionError
      else first_error (map (cpython_str_error max_str_digits (depth - 1)) xs))"
| "cpython_str_error max_str_digits depth (PDict kvs) =
     (if depth = 0 then Some RecursionError
      else first_error (map (\<lambda>(k, v). cpython_str_error max_str_digits (depth - 1) v) kvs))"
| "cpython_str_error max_str_digits depth v = None"

section \<open>The sort direction and the dates\<close>

definition SortDirection_name :: "SortDirection \<Rightarrow> string" where
  "SortDirection_name d = (case d of ascending \<Rightarrow> ''ascending'' | descending \<Rightarrow> ''descending'')"

text \<open>\<^verbatim>\<open>Enum.__str__\<close>: class name, a dot, member name.\<close>

definition Enum_str :: "SortDirection \<Rightarrow> string" where
  "Enum_str d = ''SortDirection'' @ ''.'' @ SortDirection_name d"

text \<open>\<^verbatim>\<open>SortDirection.__str__\<close>: \<^verbatim>\<open>super().__str__().split(".")[-1]\<close>.\<close>

definition SortDirection_str :: "SortDirection \<Rightarrow> string" where
  "SortDirection_str d = last (split (CHR ''.'') (Enum_str d))"

text \<open>\<^verbatim>\<open>datetime.date()\<close>: the date part, the time of day dropped.\<close>

definition date_of :: "datetime \<Rightarrow> date" where
  "date_of dt = date.truncate dt"

text \<open>\<^verbatim>\<open>date.isoformat()\<close>: \<^verbatim>\<open>"%04d-%02d-%02d" % (year, month, day)\<close>.\<close>

definition isoformat :: "date \<Rightarrow> string" where
  "isoformat d = format_0d 4 (year d) @ ''-'' @ format_0d 2 (month d) @ ''-'' @ format_0d 2 (day d)"

text \<open>
  The ISO 8601 calendar date form \<open>YYYY-MM-DD\<close>, written out digit by digit: four digits
  of the year, two of the month, two of the day.
\<close>

definition iso8601_date :: "nat \<Rightarrow> nat \<Rightarrow> nat \<Rightarrow> string" where
  "iso8601_date y m d =
     [dec_digit (y div 1000 mod 10), dec_digit (y div 100 mod 10),
      dec_digit (y div 10 mod 10), dec_digit (y mod 10), CHR ''-'',
      dec_digit (m div 10 mod 10), dec_digit (m mod 10), CHR ''-'',
      dec_digit (d div 10 mod 10), dec_digit (d mod 10)]"

text \<open>The bounds that every Python date satisfies (\<^verbatim>\<open>MINYEAR = 1\<close>, \<^verbatim>\<open>MAXYEAR = 9999\<close>).\<close>

definition date_in_range :: "'a date_scheme \<Rightarrow> bool" where
  "date_in_range d = (1 \<le> year d \<and> year d \<le> 9999 \<and> 1 \<le> month d \<and> month d \<le> 12
                      \<and> 1 \<le> day d \<and> day d \<le> 31)"

section \<open>The payload builders\<close>

text \<open>\<^verbatim>\<open>@dataclass(frozen=True) class NotionPageProperty\<close>: a name and a value.\<close>

record NotionPageProperty =
  name :: string
  value_of :: pyval

text \<open>
  \<^verbatim>\<open>build_single_sorter(property_name, direction)\<close>. The first statement builds the
  arguments of the debug log, \<^verbatim>\<open>str(direction)\<close> among them: an exception of that
  conversion leaves the function before any check. Then the \<^verbatim>\<open>isinstance\<close> test
  comes first, the emptiness test second. A member of the enumeration is truthy, so
  \<^verbatim>\<open>direction or SortDirection.ascending\<close> is again a member and the second
  \<^verbatim>\<open>str\<close> is applied to a member only; the last case of the inner \<open>case\<close> is never
  taken.
\<close>

definition build_single_sorter ::
  "(pyval \<Rightarrow> error option) \<Rightarrow> pyval \<Rightarrow> pyval \<Rightarrow> error + pyval" where
  "build_single_sorter builtin_str property_name direction =
     (case str_error builtin_str direction of
        Some e \<Rightarrow> Inl e
      | None \<Rightarrow>
          (case direction of
             PEnum d \<Rightarrow>
               if \<not> truthy property_name
               then Inl (ValueError (PStr ''Property name can't be empty''))
               else
                 (case py_or direction (PEnum ascending) of
                    PEnum d' \<Rightarrow>
                      let sorter = [(''sorts'', PList [])];
                          sorter = at_key ''sorts''
                                     (obj_append
                                        (PDict [(''property'', property_name),
                                                (''direction'', PStr (SortDirection_str d'))]))
                                     sorter
                      in Inr (PDict sorter)
                  | _ \<Rightarrow>
                      Inl (TypeError (PStr ''Direction must be an instance of SortDirection'')))
           | _ \<Rightarrow> Inl (TypeError (PStr ''Direction must be an instance of SortDirection''))))"

text \<open>
  \<^verbatim>\<open>build_equal_filter(property_name, value)\<close>. The two \<^verbatim>\<open>isinstance\<close> tests are
  independent \<^verbatim>\<open>if\<close> statements, run one after the other.
\<close>

definition build_equal_filter :: "pyval \<Rightarrow> pyval \<Rightarrow> error + pyval" where
  "build_equal_filter property_name v =
     (if \<not> truthy property_name then Inl (ValueError (PStr ''Property name can't be empty''))
      else if \<not> truthy v then Inl (ValueError (PStr ''Value can't be empty''))
      else
        let filter0 = [];
            filter1 = setitem ''filter'' (PDict []) filter0;
            filter2 = at_key ''filter'' (obj_setitem ''property'' property_name) filter1;
            filter3 = (case v of
                         PDateTime dt \<Rightarrow>
                           at_key ''filter''
                             (obj_at_key ''date''
                                (obj_setitem ''equals'' (PStr (isoformat (date_of dt)))))
                             (at_key ''filter'' (obj_setitem ''date'' (PDict [])) filter2)
                       | _ \<Rightarrow> filter2);
            filter4 = (case v of
                         PStr s \<Rightarrow>
                           at_key ''filter''
                             (obj_at_key ''rich_text'' (obj_setitem ''equals'' v))
                             (at_key ''filter'' (obj_setitem ''rich_text'' (PDict [])) filter3)
                       | _ \<Rightarrow> filter3)
        in Inr (PDict filter4))"

text \<open>
  \<^verbatim>\<open>build_update_properties(properties)\<close>: the loop stores each entry under its name in
  the dictionary kept under \<^verbatim>\<open>"properties"\<close>.
\<close>

definition build_update_properties :: "NotionPageProperty list \<Rightarrow> error + pyval" where
  "build_update_properties properties =
     (if length properties = 0 then Inl (ValueError (PStr ''properties can't be empty''))
      else
        let ret = [];
            ret = setitem ''properties'' (PDict []) ret;
            ret = fold (\<lambda>notion_propertie.
                          at_key ''properties''
                            (obj_setitem (name notion_propertie) (value_of notion_propertie)))
                       properties ret
        in Inr (PDict ret))"

section \<open>Request assembly\<close>

definition NOTION_VERSION :: string where
  "NOTION_VERSION = ''2022-06-28''"

definition NOTION_API_BASE_URL :: string where
  "NOTION_API_BASE_URL = ''https://api.notion.com''"

definition NOTION_API_VERSION :: string where
  "NOTION_API_VERSION = ''v1''"

text \<open>
  \<^verbatim>\<open>NOTION_API_KEY = os.environ.get("NOTION_API_KEY")\<close> is a string, or \<^verbatim>\<open>None\<close>
  when the variable is not set. It is read once when the module is loaded, so the
  functions below take it as their first argument. An argument annotated
  \<^verbatim>\<open>str | None\<close> is a \<open>string option\<close>.
\<close>

definition to_pyval :: "string option \<Rightarrow> pyval" where
  "to_pyval x = (case x of None \<Rightarrow> PNone | Some s \<Rightarrow> PStr s)"

text \<open>\<^verbatim>\<open>x or y\<close> on two such arguments.\<close>

definition or_else :: "string option \<Rightarrow> string option \<Rightarrow> string option" where
  "or_else a b = (if truthy (to_pyval a) then a else b)"

text \<open>The text an f-string puts in for \<^verbatim>\<open>{x}\<close>: \<^verbatim>\<open>str(None)\<close> is \<^verbatim>\<open>"None"\<close>.\<close>

definition format_value :: "string option \<Rightarrow> string" where
  "format_value x = (case x of None \<Rightarrow> ''None'' | Some s \<Rightarrow> s)"

type_synonym headers_dict = "(string \<times> string) list"

text \<open>\<^verbatim>\<open>_log_headers(headers)\<close>: the comprehension keeps every other entry, in order.\<close>

definition log_headers :: "headers_dict \<Rightarrow> headers_dict" where
  "log_headers hs = filter (\<lambda>(key, v). key \<noteq> ''Authorization'') hs"

definition build_headers :: "string option \<Rightarrow> string option \<Rightarrow> headers_dict" where
  "build_headers NOTION_API_KEY api_key =
     [(''Authorization'', ''Bearer '' @ format_value (or_else api_key NOTION_API_KEY)),
      (''Notion-Version'', NOTION_VERSION),
      (''Content-Type'', ''application/json'')]"

definition build_url :: "string \<Rightarrow> string" where
  "build_url route = join ''/'' [NOTION_API_BASE_URL, NOTION_API_VERSION, route]"

section \<open>The database query\<close>

text \<open>
  The dictionaries passed to \<^verbatim>\<open>query_notion_database\<close> are mutable objects that the
  caller keeps, and the two default arguments \<^verbatim>\<open>filter = {}\<close> and \<^verbatim>\<open>sorter = {}\<close>
  are objects created once and shared by all calls. They live in a store: a list of
  dictionaries, a reference being an index into it. The world also records every call
  made to the HTTP library, in order.
\<close>

record http_call =
  http_method :: string
  url :: string
  json :: pydict
  headers :: headers_dict

text \<open>
  A \<^verbatim>\<open>requests.Response\<close>: the status code and the decoded JSON body, \<open>None\<close> when
  the content is not JSON.
\<close>

record Response =
  status_code :: int
  json_body :: "pyval option"

record world =
  heap :: "pydict list"
  calls :: "http_call list"

text \<open>
  The objects of the two default arguments, and a world holding only them, both still
  empty, before any request.
\<close>

definition default_filter :: nat where
  "default_filter = 0"

definition default_sorter :: nat where
  "default_sorter = 1"

definition initial_world :: world where
  "initial_world = \<lparr>heap = [[], []], calls = []\<rparr>"

text \<open>
  \<^verbatim>\<open>a | b\<close> on dictionaries: a new dictionary, a copy of \<open>a\<close> into which the items
  of \<open>b\<close> are stored in order. Neither operand is written.
\<close>

definition dict_union :: "pydict \<Rightarrow> pydict \<Rightarrow> pydict" where
  "dict_union a b = fold (\<lambda>(k, v). setitem k v) b a"

definition dict_or :: "nat \<Rightarrow> nat \<Rightarrow> world \<Rightarrow> nat \<times> world" where
  "dict_or a b w =
     (length (heap w), w\<lparr>heap := heap w @ [dict_union (heap w ! a) (heap w ! b)]\<rparr>)"

text \<open>\<^verbatim>\<open>Response.raise_for_status()\<close>: an error for a status from 400 to 599.\<close>

definition raise_for_status :: "Response \<Rightarrow> error option" where
  "raise_for_status res =
     (if 400 \<le> status_code res \<and> status_code res < 600 then Some (HTTPError (status_code res))
      else None)"

text \<open>
  \<^verbatim>\<open>query_notion_database(database_id, filter, sorter, api_key)\<close>. The HTTP library is
  the parameter \<open>post\<close>: given the call it answers with a response or raises. It receives
  the serialised payload, the content of the merged dictionary at the time of the call.
  The last statement before \<^verbatim>\<open>return\<close> decodes the body for the log.
\<close>

definition query_notion_database ::
  "(http_call \<Rightarrow> error + Response) \<Rightarrow> string option \<Rightarrow> string option \<Rightarrow> nat \<Rightarrow> nat
     \<Rightarrow> string option \<Rightarrow> world \<Rightarrow> (error + Response) \<times> world" where
  "query_notion_database post NOTION_API_KEY database_id filter_ref sorter_ref api_key w =
     (if \<not> truthy (to_pyval database_id) then (Inl (ValueError (to_pyval database_id)), w)
      else
        let hdrs = build_headers NOTION_API_KEY api_key;
            (payload, w1) = dict_or filter_ref sorter_ref w;
            databases_api_url = build_url (''databases/'' @ format_value database_id @ ''/query'');
            call = \<lparr>http_method = ''POST'', url = databases_api_url,
                    json = heap w1 ! payload, headers = hdrs\<rparr>;
            w2 = w1\<lparr>calls := calls w1 @ [call]\<rparr>
        in (case post call of
              Inl e \<Rightarrow> (Inl e, w2)
            | Inr res \<Rightarrow>
                (case raise_for_status res of
                   Some e \<Rightarrow> (Inl e, w2)
                 | None \<Rightarrow>
                     (case json_body res of
                        None \<Rightarrow> (Inl JSONDecodeError, w2)
                      | Some body \<Rightarrow> (Inr res, w2)))))"

section \<open>Auxiliary facts\<close>

subsection \<open>Rendering of numbers and dates\<close>

lemma str_nat_small: "n < 10 \<Longrightarrow> str_nat n = [dec_digit n]"
  by (subst str_nat.simps) simp

lemma str_nat_big: "10 \<le> n \<Longrightarrow> str_nat n = str_nat (n div 10) @ [dec_digit (n mod 10)]"
  by (subst str_nat.simps) simp

lemma dec_digit_0: "dec_digit 0 = CHR ''0''"
  by code_simp

lemma replicate_2: "replicate 2 c = [c, c]"
  by (simp add: numeral_2_eq_2)

lemma replicate_3: "replicate 3 c = [c, c, c]"
  by (simp add: numeral_3_eq_3)

lemma str_nat_2:
  "10 \<le> n \<Longrightarrow> n < 100 \<Longrightarrow> str_nat n = [dec_digit (n div 10), dec_digit (n mod 10)]"
  by (simp add: str_nat_big str_nat_small)

lemma str_nat_3:
  assumes "100 \<le> n" "n < 1000"
  shows "str_nat n = [dec_digit (n div 100), dec_digit (n div 10 mod 10), dec_digit (n mod 10)]"
proof -
  from assms have "10 \<le> n div 10" "n div 10 < 100" by auto
  then have "str_nat (n div 10) = [dec_digit (n div 10 div 10), dec_digit (n div 10 mod 10)]"
    by (rule str_nat_2)
  moreover have "n div 10 div 10 = n div 100"
    by (simp add: div_mult2_eq [symmetric])
  ultimately show ?thesis using assms by (simp add: str_nat_big)
qed

lemma str_nat_4:
  assumes "1000 \<le> n" "n < 10000"
  shows "str_nat n = [dec_digit (n div 1000), dec_digit (n div 100 mod 10),
                      dec_digit (n div 10 mod 10), dec_digit (n mod 10)]"
proof -
  from assms have "100 \<le> n div 10" "n div 10 < 1000" by auto
  then have "str_nat (n div 10) =
      [dec_digit (n div 10 div 100), dec_digit (n div 10 div 10 mod 10), dec_digit (n div 10 mod 10)]"
    by (rule str_nat_3)
  moreover have "n div 10 div 100 = n div 1000" "n div 10 div 10 = n div 100"
    by (simp_all add: div_mult2_eq [symmetric])
  ultimately show ?thesis using assms by (simp add: str_nat_big)
qed

lemma format_2d:
  assumes "n < 100"
  shows "format_0d 2 n = [dec_digit (n div 10 mod 10), dec_digit (n mod 10)]"
proof (cases "n < 10")
  case True
  then show ?thesis by (simp add: format_0d_def str_nat_small dec_digit_0)
next
  case False
  with assms have "n div 10 < 10" "10 \<le> n" by auto
  then show ?thesis by (simp add: format_0d_def str_nat_big str_nat_small)
qed

lemma format_4d:
  assumes "n < 10000"
  shows "format_0d 4 n = [dec_digit (n div 1000 mod 10), dec_digit (n div 100 mod 10),
                          dec_digit (n div 10 mod 10), dec_digit (n mod 10)]"
proof -
  consider "n < 10" | "10 \<le> n" "n < 100" | "100 \<le> n" "n < 1000" | "1000 \<le> n"
    by linarith
  then show ?thesis
  proof cases
    case 1
    then show ?thesis by (simp add: format_0d_def str_nat_small dec_digit_0 replicate_3)
  next
    case 2
    then show ?thesis by (simp add: format_0d_def str_nat_2 dec_digit_0 replicate_2)
  next
    case 3
    then show ?thesis by (simp add: format_0d_def str_nat_3 dec_digit_0)
  next
    case 4
    with assms have "n div 1000 < 10" by auto
    with 4 assms show ?thesis by (simp add: format_0d_def str_nat_4)
  qed
qed

text \<open>Within the bounds of a Python date, \<^verbatim>\<open>isoformat\<close> prints the ISO 8601 form.\<close>

lemma isoformat_iso8601:
  "year dt \<le> 9999 \<Longrightarrow> month dt \<le> 12 \<Longrightarrow> day dt \<le> 31 \<Longrightarrow>
   isoformat (date_of dt) = iso8601_date (year dt) (month dt) (day dt)"
  by (simp add: isoformat_def iso8601_date_def date_of_def date.truncate_def format_4d format_2d)

lemma iso8601_date_example: "iso8601_date 2023 4 29 = ''2023-04-29''"
  by code_simp

lemma SortDirection_str_eq: "SortDirection_str d = SortDirection_name d"
  by (cases d) (simp_all add: SortDirection_str_def Enum_str_def SortDirection_name_def)

subsection \<open>Integers beyond the digit limit\<close>




subsection \<open>The loop of \<^verbatim>\<open>build_update_properties\<close>\<close>

lemma at_key_properties:
  "at_key ''properties'' (obj_setitem k v) [(''properties'', PDict m)] =
     [(''properties'', PDict (AList.update k v m))]"
  by (simp add: at_key_def setitem_def)

lemma fold_properties:
  "fold (\<lambda>p. at_key ''properties'' (obj_setitem (name p) (value_of p))) ps
        [(''properties'', PDict m)] =
     [(''properties'', PDict (fold (\<lambda>p. AList.update (name p) (value_of p)) ps m))]"
  by (induction ps arbitrary: m) (simp_all add: at_key_properties)

lemma keys_fold_update:
  "fst ` set (fold (\<lambda>p. AList.update (name p) (value_of p)) ps m) =
     fst ` set m \<union> name ` set ps"
  by (induction ps arbitrary: m) (auto simp add: AList.dom_update)

lemma distinct_fold_update:
  "distinct (map fst m) \<Longrightarrow>
   distinct (map fst (fold (\<lambda>p. AList.update (name p) (value_of p)) ps m))"
  by (induction ps arbitrary: m) (simp_all add: AList.distinct_update)

lemma map_of_fold_update:
  "map_of (fold (\<lambda>p. AList.update (name p) (value_of p)) ps m) k =
     (if k \<in> name ` set ps then Some (value_of (last (filter (\<lambda>q. name q = k) ps)))
      else map_of m k)"
proof (induction ps arbitrary: m)
  case Nil
  then show ?case by simp
next
  case (Cons p ps)
  show ?case
  proof (cases "k \<in> name ` set ps")
    case True
    then have "filter (\<lambda>q. name q = k) ps \<noteq> []"
      by (auto simp add: filter_empty_conv)
    with True show ?thesis by (simp add: Cons.IH)
  next
    case False
    then have "filter (\<lambda>q. name q = k) ps = []"
      by (auto simp add: filter_empty_conv)
    with False show ?thesis by (auto simp add: Cons.IH AList.update_conv')
  qed
qed

subsection \<open>The dictionary union and the query\<close>

lemma map_of_dict_union:
  "distinct (map fst b) \<Longrightarrow>
   map_of (dict_union a b) k = (case map_of b k of Some v \<Rightarrow> Some v | None \<Rightarrow> map_of a k)"
  unfolding dict_union_def
proof (induction b arbitrary: a)
  case Nil
  then show ?case by simp
next
  case (Cons x b)
  obtain k' v' where x: "x = (k', v')" by (cases x)
  from Cons.prems x have d: "distinct (map fst b)" and nin: "k' \<notin> fst ` set b" by auto
  from nin have none: "map_of b k' = None" by (simp add: map_of_eq_None_iff)
  show ?case
    using Cons.IH [OF d, of "setitem k' v' a"] none
    by (auto simp add: x setitem_def AList.update_conv' split: option.splits)
qed

lemma map_of_dict_union_distinct:
  "distinct (map fst b) \<Longrightarrow> map_of (dict_union a b) = map_of a ++ map_of b"
  by (rule ext) (simp add: map_of_dict_union map_add_def)

lemma keys_dict_union: "fst ` set (dict_union a b) = fst ` set a \<union> fst ` set b"
  unfolding dict_union_def
  by (induction b arbitrary: a) (simp_all add: setitem_def AList.dom_update case_prod_beta Un_ac)

lemma distinct_dict_union:
  "distinct (map fst a) \<Longrightarrow> distinct (map fst (dict_union a b))"
  unfolding dict_union_def
  by (induction b arbitrary: a) (auto simp add: setitem_def AList.distinct_update)

lemma build_url_route: "build_url route = ''https://api.notion.com/v1/'' @ route"
  by (simp add: build_url_def NOTION_API_BASE_URL_def NOTION_API_VERSION_def)

text \<open>
  The world after a call that passes the check of \<^verbatim>\<open>database_id\<close>: one new dictionary,
  one recorded call, whatever the HTTP library answers.
\<close>

lemma query_world:
  "d \<noteq> [] \<Longrightarrow>
   snd (query_notion_database post K (Some d) f s k w) =
     \<lparr>heap = heap w @ [dict_union (heap w ! f) (heap w ! s)],
      calls = calls w @ [\<lparr>http_method = ''POST'',
                          url = ''https://api.notion.com/v1/databases/'' @ d @ ''/query'',
                          json = dict_union (heap w ! f) (heap w ! s),
                          headers = build_headers K k\<rparr>]\<rparr>"
  by (simp add: query_notion_database_def to_pyval_def format_value_def dict_or_def
      build_url_route Let_def split: sum.splits option.splits)

lemma query_world_rejected:
  "\<not> truthy (to_pyval db) \<Longrightarrow> snd (query_notion_database post K db f s k w) = w"
  by (simp add: query_notion_database_def)

lemma query_heap:
  "heap (snd (query_notion_database post K db f s k w)) =
     (if truthy (to_pyval db) then heap w @ [dict_union (heap w ! f) (heap w ! s)] else heap w)"
proof (cases "truthy (to_pyval db)")
  case True
  then obtain d where "db = Some d" "d \<noteq> []"
    by (cases db) (auto simp add: to_pyval_def)
  then show ?thesis by (simp add: query_world to_pyval_def)
next
  case False
  then show ?thesis by (simp add: query_world_rejected)
qed

lemma query_frame:
  "a < length (heap w) \<Longrightarrow> heap (snd (query_notion_database post K db f s k w)) ! a = heap w ! a"
  by (simp add: query_heap nth_append)

lemma query_heap_length:
  "length (heap w) \<le> length (heap (snd (query_notion_database post K db f s k w)))"
  by (simp add: query_heap)

subsection \<open>The redacted headers\<close>

text \<open>
  The redacted log keeps the other two entries as they are: a key whose text equals the
  value of one of them, such as \<^verbatim>\<open>application/json\<close>, is the text of a logged value.
\<close>

lemma log_headers_other_values:
  "(''Content-Type'', ''application/json'') \<in>
     set (log_headers (build_headers None (Some ''application/json'')))"
  by (simp add: log_headers_def build_headers_def)

section \<open>The properties of the specification\<close>

text \<open>
  C1. For a non-empty \<^verbatim>\<open>property_name\<close>, \<^verbatim>\<open>build_equal_filter\<close> on a date-time returns
  the fragment with the kind \<^verbatim>\<open>"date"\<close>, whose \<^verbatim>\<open>"equals"\<close> is the calendar date of
  the value in the ISO 8601 form \<open>YYYY-MM-DD\<close>: the hour, minute, second and microsecond
  do not occur in it. On a non-empty string it returns the fragment with the kind
  \<^verbatim>\<open>"rich_text"\<close>, whose \<^verbatim>\<open>"equals"\<close> is that string.
\<close>

theorem build_equal_filter_by_kind:
  "n \<noteq> [] \<longrightarrow>
     (date_in_range dt \<longrightarrow>
        build_equal_filter (PStr n) (PDateTime dt) =
          Inr (PDict [(''filter'', PDict [(''property'', PStr n),
                 (''date'', PDict [(''equals'',
                      PStr (iso8601_date (year dt) (month dt) (day dt)))])])]))
   \<and> (s \<noteq> [] \<longrightarrow>
        build_equal_filter (PStr n) (PStr s) =
          Inr (PDict [(''filter'', PDict [(''property'', PStr n),
                 (''rich_text'', PDict [(''equals'', PStr s)])])]))"
  by (simp add: build_equal_filter_def setitem_def at_key_def isoformat_iso8601 date_in_range_def)

theorem build_equal_filter_by_kind_witness:
  "build_equal_filter (PStr ''Date'')
     (PDateTime \<lparr>year = 2023, month = 4, day = 29,
                 hour = 13, minute = 45, second = 7, microsecond = 0\<rparr>) =
     Inr (PDict [(''filter'', PDict [(''property'', PStr ''Date''),
            (''date'', PDict [(''equals'', PStr ''2023-04-29'')])])])
   \<and> build_equal_filter (PStr ''Date'') (PStr ''No Suggar'') =
     Inr (PDict [(''filter'', PDict [(''property'', PStr ''Date''),
            (''rich_text'', PDict [(''equals'', PStr ''No Suggar'')])])])"
  using build_equal_filter_by_kind [of "''Date''"
      "\<lparr>year = 2023, month = 4, day = 29, hour = 13, minute = 45, second = 7, microsecond = 0\<rparr>"
      "''No Suggar''"]
    iso8601_date_example
  by (simp add: date_in_range_def)

text \<open>
  C2. \<^verbatim>\<open>build_equal_filter\<close> raises \<^verbatim>\<open>ValueError\<close> when \<^verbatim>\<open>property_name\<close> is the
  empty string or \<^verbatim>\<open>None\<close>, whatever the value; and, for a non-empty
  \<^verbatim>\<open>property_name\<close>, when the value is the empty string, the integer zero, a float
  zero of either sign, or \<^verbatim>\<open>None\<close>, and more generally when the value is falsy. No
  fragment is returned in these cases.
\<close>

theorem build_equal_filter_rejects_empty:
  "(property_name = PStr [] \<or> property_name = PNone \<longrightarrow>
      build_equal_filter property_name v =
        Inl (ValueError (PStr ''Property name can't be empty'')))
   \<and> (n \<noteq> [] \<and> (v' = PStr [] \<or> v' = PInt 0 \<or> v' = PFloat (Finite sg 0 e) \<or> v' = PNone
                   \<or> \<not> truthy v') \<longrightarrow>
      build_equal_filter (PStr n) v' = Inl (ValueError (PStr ''Value can't be empty'')))"
  by (auto simp add: build_equal_filter_def)

theorem build_equal_filter_rejects_empty_witness:
  "build_equal_filter (PStr []) (PStr ''x'') =
     Inl (ValueError (PStr ''Property name can't be empty''))
   \<and> build_equal_filter (PStr ''Name'') (PInt 0) =
     Inl (ValueError (PStr ''Value can't be empty''))"
  using build_equal_filter_rejects_empty [of "PStr []" "PStr ''x''" "''Name''" "PInt 0"]
  by simp

text \<open>
  C3. \<^verbatim>\<open>build_update_properties\<close> raises \<^verbatim>\<open>ValueError\<close> on the empty list. On a
  non-empty list it returns \<^verbatim>\<open>{"properties": m}\<close>, where the keys of \<open>m\<close> are exactly
  the names occurring in the list, each once, and each name is mapped to the value of the
  last entry of the list with that name.
\<close>

theorem build_update_properties_last_wins:
  "build_update_properties [] = Inl (ValueError (PStr ''properties can't be empty''))
   \<and> (ps \<noteq> [] \<longrightarrow>
        (\<exists>m. build_update_properties ps = Inr (PDict [(''properties'', PDict m)])
           \<and> distinct (map fst m)
           \<and> fst ` set m = name ` set ps
           \<and> (\<forall>p \<in> set ps. map_of m (name p) =
                 Some (value_of (last (filter (\<lambda>q. name q = name p) ps))))))"
  by (simp add: build_update_properties_def setitem_def fold_properties keys_fold_update
      distinct_fold_update map_of_fold_update)

theorem build_update_properties_last_wins_witness:
  "\<exists>m. build_update_properties
          [\<lparr>name = ''Streak'', value_of = PInt 1\<rparr>,
           \<lparr>name = ''Done'', value_of = PBool True\<rparr>,
           \<lparr>name = ''Streak'', value_of = PInt 2\<rparr>] = Inr (PDict [(''properties'', PDict m)])
      \<and> fst ` set m = {''Streak'', ''Done''}
      \<and> map_of m ''Streak'' = Some (PInt 2)
      \<and> map_of m ''Done'' = Some (PBool True)"
  using build_update_properties_last_wins
    [of "[\<lparr>name = ''Streak'', value_of = PInt 1\<rparr>,
          \<lparr>name = ''Done'', value_of = PBool True\<rparr>,
          \<lparr>name = ''Streak'', value_of = PInt 2\<rparr>]"]
  by auto

text \<open>
  C4. For a non-empty \<^verbatim>\<open>database_id\<close>, \<^verbatim>\<open>query_notion_database\<close> makes one POST
  whose JSON body is the union of the two dictionaries: its keys are those of
  \<^verbatim>\<open>filter\<close> together with those of \<^verbatim>\<open>sorter\<close>, each once, and a key has the value
  \<^verbatim>\<open>sorter\<close> gives it if \<^verbatim>\<open>sorter\<close> has the key and the value \<^verbatim>\<open>filter\<close> gives it
  otherwise. This holds whatever the HTTP library answers.
\<close>

theorem query_body_is_union:
  "d \<noteq> [] \<Longrightarrow> f < length (heap w) \<Longrightarrow> s < length (heap w) \<Longrightarrow>
   distinct (map fst (heap w ! f)) \<Longrightarrow> distinct (map fst (heap w ! s)) \<Longrightarrow>
   \<exists>body. calls (snd (query_notion_database post K (Some d) f s k w)) =
             calls w @ [\<lparr>http_method = ''POST'',
                         url = ''https://api.notion.com/v1/databases/'' @ d @ ''/query'',
                         json = body, headers = build_headers K k\<rparr>]
        \<and> distinct (map fst body)
        \<and> fst ` set body = fst ` set (heap w ! f) \<union> fst ` set (heap w ! s)
        \<and> map_of body = map_of (heap w ! f) ++ map_of (heap w ! s)"
  by (simp add: query_world distinct_dict_union keys_dict_union map_of_dict_union_distinct)

theorem query_body_is_union_witness:
  "\<exists>body. calls (snd (query_notion_database (\<lambda>c. Inl Timeout) (Some ''test_key'') (Some ''db1'') 0 1 None
              \<lparr>heap = [[(''filter'', PStr ''f''), (''page_size'', PInt 5)],
                       [(''sorts'', PList []), (''filter'', PStr ''g'')]],
               calls = []\<rparr>)) =
            [\<lparr>http_method = ''POST'', url = ''https://api.notion.com/v1/databases/db1/query'',
              json = body, headers = build_headers (Some ''test_key'') None\<rparr>]
      \<and> fst ` set body = {''filter'', ''page_size''} \<union> {''sorts'', ''filter''}
      \<and> map_of body ''filter'' = Some (PStr ''g'')
      \<and> map_of body ''page_size'' = Some (PInt 5)
      \<and> map_of body ''sorts'' = Some (PList [])"
proof -
  let ?w = "\<lparr>heap = [[(''filter'', PStr ''f''), (''page_size'', PInt 5)],
                     [(''sorts'', PList []), (''filter'', PStr ''g'')]],
             calls = []\<rparr>"
  have "\<exists>body. calls (snd (query_notion_database (\<lambda>c. Inl Timeout) (Some ''test_key'')
                   (Some ''db1'') 0 1 None ?w)) =
             calls ?w @ [\<lparr>http_method = ''POST'',
                          url = ''https://api.notion.com/v1/databases/'' @ ''db1'' @ ''/query'',
                          json = body, headers = build_headers (Some ''test_key'') None\<rparr>]
        \<and> distinct (map fst body)
        \<and> fst ` set body = fst ` set (heap ?w ! 0) \<union> fst ` set (heap ?w ! 1)
        \<and> map_of body = map_of (heap ?w ! 0) ++ map_of (heap ?w ! 1)"
    by (rule query_body_is_union) simp_all
  then obtain body where
    c: "calls (snd (query_notion_database (\<lambda>c. Inl Timeout) (Some ''test_key'')
                   (Some ''db1'') 0 1 None ?w)) =
             calls ?w @ [\<lparr>http_method = ''POST'',
                          url = ''https://api.notion.com/v1/databases/'' @ ''db1'' @ ''/query'',
                          json = body, headers = build_headers (Some ''test_key'') None\<rparr>]"
    and k: "fst ` set body = fst ` set (heap ?w ! 0) \<union> fst ` set (heap ?w ! 1)"
    and m: "map_of body = map_of (heap ?w ! 0) ++ map_of (heap ?w ! 1)"
    by blast
  from c have c': "calls (snd (query_notion_database (\<lambda>c. Inl Timeout) (Some ''test_key'')
                   (Some ''db1'') 0 1 None ?w)) =
            [\<lparr>http_method = ''POST'', url = ''https://api.notion.com/v1/databases/db1/query'',
              json = body, headers = build_headers (Some ''test_key'') None\<rparr>]"
    by simp
  from k have k': "fst ` set body = {''filter'', ''page_size''} \<union> {''sorts'', ''filter''}"
    by simp
  from m have m1: "map_of body ''filter'' = Some (PStr ''g'')"
    and m2: "map_of body ''page_size'' = Some (PInt 5)"
    and m3: "map_of body ''sorts'' = Some (PList [])"
    by (simp_all add: map_add_def)
  from c' k' m1 m2 m3 show ?thesis by blast
qed

text \<open>
  C5. When \<^verbatim>\<open>database_id\<close> is \<^verbatim>\<open>None\<close> or the empty string,
  \<^verbatim>\<open>query_notion_database\<close> raises \<^verbatim>\<open>ValueError\<close> and the world is the one it
  started from: no call to the HTTP library was recorded and no dictionary was created.
\<close>

theorem query_empty_id_no_post:
  "query_notion_database post K None f s k w = (Inl (ValueError PNone), w)
   \<and> query_notion_database post K (Some []) f s k w = (Inl (ValueError (PStr [])), w)"
  by (simp add: query_notion_database_def to_pyval_def)

text \<open>
  C6, as stated, takes the \<^verbatim>\<open>Authorization\<close> value to be \<^verbatim>\<open>"Bearer "\<close> followed by
  \<^verbatim>\<open>api_key\<close> whenever one is supplied. The code falls back with \<^verbatim>\<open>or\<close>, so a
  supplied empty string is replaced by the configured key.
\<close>

theorem build_headers_supplied_key_counterexample:
  "map_of (build_headers (Some ''secret'') (Some '''')) ''Authorization'' \<noteq>
     Some (''Bearer '' @ '''')"
  by (simp add: build_headers_def or_else_def to_pyval_def format_value_def)

text \<open>
  C6, amended. \<^verbatim>\<open>build_headers\<close> returns exactly the three entries
  \<^verbatim>\<open>Authorization\<close>, \<^verbatim>\<open>Notion-Version\<close> and \<^verbatim>\<open>Content-Type\<close>. The
  \<^verbatim>\<open>Authorization\<close> value is \<^verbatim>\<open>"Bearer "\<close> followed by \<^verbatim>\<open>api_key\<close> when it is
  supplied and not empty, and otherwise by the configured key, an absent configured key
  being written as \<^verbatim>\<open>None\<close>. No input is rejected. \<^verbatim>\<open>_log_headers\<close> of the result is
  the two other entries, the same for every key.
\<close>

theorem build_headers_contents:
  "build_headers NOTION_API_KEY api_key =
     [(''Authorization'', ''Bearer '' @
         (case api_key of
            Some a \<Rightarrow>
              if a \<noteq> [] then a
              else (case NOTION_API_KEY of Some e \<Rightarrow> e | None \<Rightarrow> ''None'')
          | None \<Rightarrow> (case NOTION_API_KEY of Some e \<Rightarrow> e | None \<Rightarrow> ''None''))),
      (''Notion-Version'', ''2022-06-28''),
      (''Content-Type'', ''application/json'')]
   \<and> log_headers (build_headers NOTION_API_KEY api_key) =
     [(''Notion-Version'', ''2022-06-28''), (''Content-Type'', ''application/json'')]"
  by (simp add: build_headers_def or_else_def to_pyval_def format_value_def log_headers_def
      NOTION_VERSION_def split: option.splits)

theorem build_headers_contents_witness:
  "build_headers None None =
     [(''Authorization'', ''Bearer None''), (''Notion-Version'', ''2022-06-28''),
      (''Content-Type'', ''application/json'')]
   \<and> log_headers (build_headers None None) =
     [(''Notion-Version'', ''2022-06-28''), (''Content-Type'', ''application/json'')]"
  by (rule build_headers_contents [of None None, simplified])

text \<open>
  C7. For a non-empty \<^verbatim>\<open>property_name\<close> and a member of \<^verbatim>\<open>SortDirection\<close>,
  \<^verbatim>\<open>build_single_sorter\<close> returns \<^verbatim>\<open>{"sorts": [e]}\<close> with the single entry
  \<^verbatim>\<open>e = {"property": property_name, "direction": d}\<close>, \<open>d\<close> being the name of the
  member in lower case. This holds whatever the built-in conversion does on other values.
\<close>

theorem build_single_sorter_fragment:
  "n \<noteq> [] \<Longrightarrow>
   build_single_sorter builtin_str (PStr n) (PEnum d) =
     Inr (PDict [(''sorts'', PList [PDict [(''property'', PStr n),
            (''direction'', PStr (case d of ascending \<Rightarrow> ''ascending''
                                        | descending \<Rightarrow> ''descending''))]])])"
  by (simp add: build_single_sorter_def str_error_def py_or_def at_key_def SortDirection_str_eq
      SortDirection_name_def)

theorem build_single_sorter_fragment_witness:
  "build_single_sorter (cpython_str_error 4300 1000) (PStr ''Name'') (PEnum descending) =
     Inr (PDict [(''sorts'', PList [PDict [(''property'', PStr ''Name''),
            (''direction'', PStr ''descending'')]])])"
  using build_single_sorter_fragment [of "''Name''" "cpython_str_error 4300 1000" descending]
  by simp




text \<open>
  C9. For a non-empty \<^verbatim>\<open>property_name\<close> and a truthy value that is neither a string
  nor a date-time, \<^verbatim>\<open>build_equal_filter\<close> raises nothing and returns
  \<^verbatim>\<open>{"filter": {"property": property_name}}\<close>: the inner dictionary has the key
  \<^verbatim>\<open>"property"\<close> alone, neither \<^verbatim>\<open>"date"\<close> nor \<^verbatim>\<open>"rich_text"\<close>.
\<close>

theorem build_equal_filter_other_kind:
  "n \<noteq> [] \<Longrightarrow> truthy v \<Longrightarrow> (\<forall>s. v \<noteq> PStr s) \<Longrightarrow> (\<forall>dt. v \<noteq> PDateTime dt) \<Longrightarrow>
   build_equal_filter (PStr n) v = Inr (PDict [(''filter'', PDict [(''property'', PStr n)])])"
  by (cases v) (simp_all add: build_equal_filter_def setitem_def at_key_def)

theorem build_equal_filter_other_kind_witness:
  "build_equal_filter (PStr ''Streak'') (PInt 5) =
     Inr (PDict [(''filter'', PDict [(''property'', PStr ''Streak'')])])"
  using build_equal_filter_other_kind [of "''Streak''" "PInt 5"]
  by simp

text \<open>
  C10. \<^verbatim>\<open>query_notion_database\<close> writes neither of the dictionaries it is given: after
  one call, and after a second call with the same two dictionaries, the store holds at
  \<^verbatim>\<open>filter\<close> and at \<^verbatim>\<open>sorter\<close>, and at every other dictionary that existed before,
  what it held before. The merged body is a new dictionary. So two calls that both pass
  the check of \<^verbatim>\<open>database_id\<close> send the same body twice: nothing accumulates in the
  shared default arguments.
\<close>

theorem query_leaves_arguments:
  "f < length (heap w) \<Longrightarrow> s < length (heap w) \<Longrightarrow>
   (let w1 = snd (query_notion_database post1 K db1 f s k1 w);
        w2 = snd (query_notion_database post2 K db2 f s k2 w1)
    in heap w1 ! f = heap w ! f \<and> heap w1 ! s = heap w ! s
     \<and> heap w2 ! f = heap w ! f \<and> heap w2 ! s = heap w ! s
     \<and> (\<forall>a < length (heap w). heap w1 ! a = heap w ! a \<and> heap w2 ! a = heap w ! a)
     \<and> (truthy (to_pyval db1) \<and> truthy (to_pyval db2) \<longrightarrow>
          map json (calls w2) = map json (calls w) @
             [dict_union (heap w ! f) (heap w ! s), dict_union (heap w ! f) (heap w ! s)]))"
proof -
  assume f: "f < length (heap w)" and s: "s < length (heap w)"
  define w1 where "w1 = snd (query_notion_database post1 K db1 f s k1 w)"
  define w2 where "w2 = snd (query_notion_database post2 K db2 f s k2 w1)"
  have len: "length (heap w) \<le> length (heap w1)"
    unfolding w1_def by (rule query_heap_length)
  have fr1: "heap w1 ! a = heap w ! a" if "a < length (heap w)" for a
    unfolding w1_def using that by (rule query_frame)
  have fr2: "heap w2 ! a = heap w ! a" if "a < length (heap w)" for a
  proof -
    from that len have "a < length (heap w1)" by simp
    then have "heap w2 ! a = heap w1 ! a" unfolding w2_def by (rule query_frame)
    with fr1 [OF that] show ?thesis by simp
  qed
  have bodies: "map json (calls w2) = map json (calls w) @
      [dict_union (heap w ! f) (heap w ! s), dict_union (heap w ! f) (heap w ! s)]"
    if t: "truthy (to_pyval db1)" "truthy (to_pyval db2)"
  proof -
    from t obtain d1 d2 where d: "db1 = Some d1" "d1 \<noteq> []" "db2 = Some d2" "d2 \<noteq> []"
      by (cases db1; cases db2) (auto simp add: to_pyval_def)
    have "map json (calls w1) = map json (calls w) @ [dict_union (heap w ! f) (heap w ! s)]"
      unfolding w1_def using d by (simp add: query_world)
    moreover have "map json (calls w2) =
        map json (calls w1) @ [dict_union (heap w1 ! f) (heap w1 ! s)]"
      unfolding w2_def using d by (simp add: query_world)
    ultimately show ?thesis using fr1 [OF f] fr1 [OF s] by simp
  qed
  show ?thesis
    using fr1 fr2 f s bodies unfolding Let_def w1_def [symmetric] w2_def [symmetric] by blast
qed

theorem query_leaves_arguments_witness:
  "(let w1 = snd (query_notion_database (\<lambda>c. Inr \<lparr>status_code = 200, json_body = Some (PDict [])\<rparr>)
                    (Some ''test_key'') (Some ''db1'') default_filter default_sorter None
                    initial_world);
        w2 = snd (query_notion_database (\<lambda>c. Inl ConnectionError)
                    (Some ''test_key'') (Some ''db2'') default_filter default_sorter None w1)
    in heap w2 ! default_filter = [] \<and> heap w2 ! default_sorter = []
     \<and> map json (calls w2) = [[], []])"
  using query_leaves_arguments [of default_filter initial_world default_sorter
      "\<lambda>c. Inr \<lparr>status_code = 200, json_body = Some (PDict [])\<rparr>" "Some ''test_key''"
      "Some ''db1''" None "\<lambda>c. Inl ConnectionError" "Some ''db2''" None]
  by (simp add: Let_def default_filter_def default_sorter_def initial_world_def to_pyval_def
      dict_union_def)

end
